theory Spec2Isabelle
  imports Main
begin

section \<open>The learn page controller and its server actions\<close>

text \<open>
  A shallow embedding of \<^verbatim>\<open>src/app/learn/page.tsx\<close> (the component
  \<^verbatim>\<open>LearnPageComponent\<close>) and of the server actions it calls
  (\<^verbatim>\<open>generateCourseAction\<close>, \<^verbatim>\<open>askQuestionAction\<close>).

  The component's React state is a record; every handler takes the state it runs in and
  returns the state it leaves (\<open>fetchCourses\<close> and \<open>handleAskQuestion\<close> also return
  the way their own promise settles). The collaborators that are not part of the sources (the
  AI flows, the Firestore functions) are not modelled: the way each of their calls
  settles is an argument of the handler, \<open>Inr v\<close> for a promise fulfilled with \<open>v\<close>
  and \<open>Inl e\<close> for a promise rejected with \<open>e\<close>. Everything a handler does to the
  outside (a call of a collaborator, a \<^verbatim>\<open>console.error\<close>, a toast) and every call of
  a state setter is appended to the field \<open>trace\<close>, in the order of the source.

  A handler is run from the latest render and to its end: the values its closure
  captured (\<^verbatim>\<open>courses\<close>, \<^verbatim>\<open>activeCourseId\<close>, \<^verbatim>\<open>mounted\<close>,
  \<^verbatim>\<open>user\<close>) are the fields of the state it is given. The functions named
  \<open>_optimistic\<close> stop at the handler's \<^verbatim>\<open>await\<close>: they give the state while
  the remote call is pending.
\<close>

subsection \<open>Thrown values and promises\<close>

text \<open>
  What a \<^verbatim>\<open>catch\<close> clause can receive: an \<^verbatim>\<open>Error\<close> with its message,
  or a value that is not an instance of \<^verbatim>\<open>Error\<close>.
\<close>

datatype thrown = JsError string | NonError

type_synonym 'a promise = "thrown + 'a"

subsection \<open>Data\<close>

text \<open>
  The declarations of \<^verbatim>\<open>Step\<close>, \<^verbatim>\<open>Course\<close> and of the flows' input and
  output types are not among the sources; the fields are those the page reads and
  writes. The external links are an array, of elements of a type \<open>'l\<close>, and the
  quiz is an object, of a type \<open>'q\<close>; both types are parameters. An optional field
  is an \<open>option\<close>, \<open>None\<close> for a missing key; the content of a
  \<^verbatim>\<open>Step\<close> is one, as the page reads it with \<^verbatim>\<open>step.content || ''\<close>. Step
  numbers are integers.
\<close>

record ('l, 'q) OutlineStep =
  o_step :: int
  o_title :: string
  o_description :: string
  o_content :: string
  o_funFact :: "string option"
  o_externalLinks :: "'l list option"
  o_quiz :: "'q option"

record ('l, 'q) GenerateFullCourseOutput =
  course :: "('l, 'q) OutlineStep list"

record GenerateFullCourseInput =
  g_topic :: string
  g_depth :: string

record AskStepQuestionInput =
  a_topic :: string
  a_stepTitle :: string
  a_stepContent :: string
  a_question :: string

record AskStepQuestionOutput =
  answer :: string

record ('l, 'q) Step =
  stepNumber :: int
  title :: string
  content :: "string option"
  completed :: bool
  funFact :: "string option"
  externalLinks :: "'l list option"
  quiz :: "'q option"

text \<open>
  \<^verbatim>\<open>Partial<Step>\<close>: every key may be missing (\<open>None\<close>); a key that is there
  carries a value of the field's type.
\<close>

record ('l, 'q) PartialStep =
  p_stepNumber :: "int option"
  p_title :: "string option"
  p_content :: "string option option"
  p_completed :: "bool option"
  p_funFact :: "string option option"
  p_externalLinks :: "'l list option option"
  p_quiz :: "'q option option"

datatype Depth = D15 | D30

fun depth_toString :: "Depth \<Rightarrow> string" where
  "depth_toString D15 = ''15''"
| "depth_toString D30 = ''30''"

text \<open>\<^verbatim>\<open>newCourseData\<close>: a course that has no identifier yet.\<close>

record ('l, 'q) CourseData =
  topic :: string
  depth :: Depth
  outline :: string
  steps :: "('l, 'q) Step list"
  createdAt :: string
  userId :: string

text \<open>
  \<^verbatim>\<open>Course\<close>: \<^verbatim>\<open>{ id: newCourseId, ...newCourseData }\<close>. The field
  \<^verbatim>\<open>id\<close> is named \<open>cid\<close> here.
\<close>

record ('l, 'q) Course = "('l, 'q) CourseData" +
  cid :: string

datatype status = Idle | Generating | Done

subsection \<open>The component's state and its trace\<close>

datatype ('l, 'q) event =
    Call_getCoursesForUser string
  | Call_generateCourseAction GenerateFullCourseInput
  | Call_addCourse "('l, 'q) CourseData"
  | Call_updateCourse string "('l, 'q) Step list"
  | Call_deleteCourse string
  | Call_askQuestionAction AskStepQuestionInput
  | ConsoleError "string option" thrown
  | Toast string string string
  | Set_courses "('l, 'q) Course list"
  | Set_activeCourseId "string option"
  | Set_generationState status

text \<open>
  \<open>user\<close> is the \<^verbatim>\<open>uid\<close> of the signed-in user, \<open>None\<close> when
  \<^verbatim>\<open>useAuth\<close> gives no user. The flag \<^verbatim>\<open>loading\<close> of \<^verbatim>\<open>useAuth\<close>
  is read by the rendering and the redirect only, not by a handler, and is left out.
\<close>

record ('l, 'q) state =
  courses :: "('l, 'q) Course list"
  activeCourseId :: "string option"
  generationState :: status
  mounted :: bool
  user :: "string option"
  trace :: "('l, 'q) event list"

definition emit :: "('l, 'q) event \<Rightarrow> ('l, 'q) state \<Rightarrow> ('l, 'q) state" where
  "emit e s = s\<lparr>trace := trace s @ [e]\<rparr>"

text \<open>
  The setters. \<^verbatim>\<open>setCourses\<close> takes the updater function;
  \<^verbatim>\<open>setCourses(v)\<close> is \<open>setCourses (\<lambda>_. v)\<close>.
\<close>

definition setCourses ::
  "(('l, 'q) Course list \<Rightarrow> ('l, 'q) Course list) \<Rightarrow> ('l, 'q) state \<Rightarrow> ('l, 'q) state" where
  "setCourses f s = emit (Set_courses (f (courses s))) (s\<lparr>courses := f (courses s)\<rparr>)"

definition setActiveCourseId :: "string option \<Rightarrow> ('l, 'q) state \<Rightarrow> ('l, 'q) state" where
  "setActiveCourseId v s = emit (Set_activeCourseId v) (s\<lparr>activeCourseId := v\<rparr>)"

definition setGenerationState :: "status \<Rightarrow> ('l, 'q) state \<Rightarrow> ('l, 'q) state" where
  "setGenerationState v s = emit (Set_generationState v) (s\<lparr>generationState := v\<rparr>)"

definition toast :: "string \<Rightarrow> string \<Rightarrow> string \<Rightarrow> ('l, 'q) state \<Rightarrow> ('l, 'q) state" where
  "toast variant ttl description s = emit (Toast variant ttl description) s"

definition console_error :: "string option \<Rightarrow> thrown \<Rightarrow> ('l, 'q) state \<Rightarrow> ('l, 'q) state" where
  "console_error label err s = emit (ConsoleError label err) s"

text \<open>The toasts shown so far, oldest first, each as (variant, title, description).\<close>

fun toasts_of :: "('l, 'q) event list \<Rightarrow> (string \<times> string \<times> string) list" where
  "toasts_of [] = []"
| "toasts_of (Toast v t d # es) = (v, t, d) # toasts_of es"
| "toasts_of (_ # es) = toasts_of es"

text \<open>\<^verbatim>\<open>courses.find(c => c.id === courseId)\<close>\<close>

definition find_course :: "string \<Rightarrow> ('l, 'q) Course list \<Rightarrow> ('l, 'q) Course option" where
  "find_course courseId cs = find (\<lambda>c. cid c = courseId) cs"

subsection \<open>Active selection\<close>

text \<open>
  \<^verbatim>\<open>courses.find(c => c.id === activeCourseId) || null\<close>: an identifier is a string
  and never equals \<^verbatim>\<open>null\<close>; a course found is an object, hence truthy.
\<close>

definition activeCourse :: "('l, 'q) state \<Rightarrow> ('l, 'q) Course option" where
  "activeCourse s = find (\<lambda>c. Some (cid c) = activeCourseId s) (courses s)"

text \<open>\<^verbatim>\<open>onSelectCourse={setActiveCourseId}\<close> and \<^verbatim>\<open>handleCreateNew\<close>\<close>

definition onSelectCourse :: "string \<Rightarrow> ('l, 'q) state \<Rightarrow> ('l, 'q) state" where
  "onSelectCourse courseId s = setActiveCourseId (Some courseId) s"

definition handleCreateNew :: "('l, 'q) state \<Rightarrow> ('l, 'q) state" where
  "handleCreateNew s = setActiveCourseId None s"

subsection \<open>Loading the collection\<close>

definition fetchCourses ::
  "('l, 'q) state \<Rightarrow> ('l, 'q) Course list promise \<Rightarrow> unit promise \<times> ('l, 'q) state" where
  "fetchCourses s fetched =
     (case user s of
        None \<Rightarrow> (Inr (), s)
      | Some uid \<Rightarrow>
          if mounted s then
            (let s1 = emit (Call_getCoursesForUser uid) s in
             case fetched of
               Inr userCourses \<Rightarrow> (Inr (), setCourses (\<lambda>_. userCourses) s1)
             | Inl err \<Rightarrow>
                 (Inr (),
                  toast ''destructive'' ''Error''
                    ''Failed to load courses. Please refresh the page.''
                    (console_error (Some ''Error fetching courses:'') err s1)))
          else (Inr (), s))"

subsection \<open>The server actions\<close>

definition msg_failed :: string where
  "msg_failed =
     ''The AI failed to generate a course for this topic. Please try a different topic.''"

definition msg_unable :: string where
  "msg_unable =
     ''The AI was unable to generate a course for this topic. This can happen with very specific or sensitive subjects. Please try a broader or different topic.''"

text \<open>
  \<^verbatim>\<open>generateCourseAction\<close>, given how \<^verbatim>\<open>generateFullCourse(input)\<close> settles.
  The result is the server's log and the way the action settles. The
  \<^verbatim>\<open>throw\<close> for an empty course stands inside the \<^verbatim>\<open>try\<close> block, so the
  \<^verbatim>\<open>catch\<close> clause receives it as it receives a rejection of the flow.
  (\<^verbatim>\<open>!result.course\<close> is false for every array.)
\<close>

definition generateCourseAction ::
  "('l, 'q) GenerateFullCourseOutput promise \<Rightarrow>
   (string \<times> thrown) list \<times> ('l, 'q) GenerateFullCourseOutput promise" where
  "generateCourseAction flow =
     (let tried =
        (case flow of
           Inl err \<Rightarrow> Inl err
         | Inr result \<Rightarrow>
             if length (course result) = 0 then Inl (JsError msg_failed) else Inr result)
      in case tried of
           Inr result \<Rightarrow> ([], Inr result)
         | Inl err \<Rightarrow> ([(''Error in generateCourseAction:'', err)], Inl (JsError msg_unable)))"

definition askQuestionAction ::
  "AskStepQuestionOutput promise \<Rightarrow> (string \<times> thrown) list \<times> AskStepQuestionOutput promise" where
  "askQuestionAction flow =
     (case flow of
        Inr out \<Rightarrow> ([], Inr out)
      | Inl err \<Rightarrow>
          ([(''Error in askQuestionAction:'', err)],
           (case err of
              JsError m \<Rightarrow> Inl (JsError m)
            | NonError \<Rightarrow> Inl (JsError ''An unknown error occurred while getting the answer.''))))"

subsection \<open>Generating a course\<close>

text \<open>JavaScript's truthiness of an optional string: a missing and an empty string are falsy.\<close>

definition truthy_string :: "string option \<Rightarrow> bool" where
  "truthy_string v = (case v of None \<Rightarrow> False | Some str \<Rightarrow> str \<noteq> [])"

text \<open>Truthiness of an optional array or object: every array and every object is truthy.\<close>

definition truthy_object :: "'a option \<Rightarrow> bool" where
  "truthy_object v = (case v of None \<Rightarrow> False | Some _ \<Rightarrow> True)"

text \<open>The callback of \<^verbatim>\<open>result.course.map\<close> that builds a \<^verbatim>\<open>Step\<close>.\<close>

definition toStep :: "('l, 'q) OutlineStep \<Rightarrow> ('l, 'q) Step" where
  "toStep st =
     (let newStep0 =
            \<lparr>stepNumber = o_step st, title = o_title st, content = Some (o_content st),
             completed = False, funFact = None, externalLinks = None, quiz = None\<rparr>;
          newStep1 =
            (if truthy_string (o_funFact st) then newStep0\<lparr>funFact := o_funFact st\<rparr>
             else newStep0);
          newStep2 =
            (if truthy_object (o_externalLinks st)
             then newStep1\<lparr>externalLinks := o_externalLinks st\<rparr>
             else newStep1);
          newStep3 =
            (if truthy_object (o_quiz st) then newStep2\<lparr>quiz := o_quiz st\<rparr>
             else newStep2)
      in newStep3)"

text \<open>\<^verbatim>\<open>{ id: newCourseId, ...newCourseData }\<close>\<close>

definition with_id :: "string \<Rightarrow> ('l, 'q) CourseData \<Rightarrow> ('l, 'q) Course" where
  "with_id newCourseId newCourseData =
     \<lparr>topic = topic newCourseData, depth = depth newCourseData,
      outline = outline newCourseData, steps = steps newCourseData,
      createdAt = createdAt newCourseData, userId = userId newCourseData,
      cid = newCourseId\<rparr>"

text \<open>
  \<^verbatim>\<open>error instanceof Error ? error.message : "An unknown error occurred."\<close>
\<close>

definition error_description :: "thrown \<Rightarrow> string" where
  "error_description err =
     (case err of JsError m \<Rightarrow> m | NonError \<Rightarrow> ''An unknown error occurred.'')"

text \<open>
  The body of the \<^verbatim>\<open>try\<close> block of \<^verbatim>\<open>handleGenerateCourse\<close>: the value
  thrown, if any, and the state where the block was left. \<open>stringify\<close> stands for
  \<^verbatim>\<open>JSON.stringify(_, null, 2)\<close> on the entries (step, title, description),
  \<open>now\<close> for \<^verbatim>\<open>new Date().toISOString()\<close>; \<open>action\<close> is how
  \<^verbatim>\<open>generateCourseAction\<close> settles and \<open>added\<close> how \<^verbatim>\<open>addCourse\<close>
  does.
\<close>

definition generate_try ::
  "((int \<times> string \<times> string) list \<Rightarrow> string) \<Rightarrow> string \<Rightarrow> string \<Rightarrow>
   ('l, 'q) state \<Rightarrow> string \<Rightarrow> Depth \<Rightarrow>
   ('l, 'q) GenerateFullCourseOutput promise \<Rightarrow> string promise \<Rightarrow>
   thrown option \<times> ('l, 'q) state" where
  "generate_try stringify now uid s tpc dpt action added =
     (let s1 = emit (Call_generateCourseAction
                  \<lparr>g_topic = tpc, g_depth = depth_toString dpt\<rparr>) s
      in case action of
           Inl err \<Rightarrow> (Some err, s1)
         | Inr result \<Rightarrow>
             (let newSteps = map toStep (course result) in
              if length newSteps = 0 then (Some (JsError msg_failed), s1)
              else
                (let newCourseData =
                       \<lparr>topic = tpc, depth = dpt,
                        outline = stringify
                          (map (\<lambda>e. (o_step e, o_title e, o_description e)) (course result)),
                        steps = newSteps, createdAt = now, userId = uid\<rparr>;
                     s2 = emit (Call_addCourse newCourseData) s1
                 in case added of
                      Inl err \<Rightarrow> (Some err, s2)
                    | Inr newCourseId \<Rightarrow>
                        (let newCourse = with_id newCourseId newCourseData
                         in (None,
                             setGenerationState Done
                               (setActiveCourseId (Some (cid newCourse))
                                  (setCourses (\<lambda>prev. newCourse # prev) s2)))))))"

text \<open>
  The handler. Its guard \<^verbatim>\<open>!user || !mounted\<close> holds when the page is not mounted
  or there is no user.
\<close>

definition handleGenerateCourse ::
  "((int \<times> string \<times> string) list \<Rightarrow> string) \<Rightarrow> string \<Rightarrow>
   ('l, 'q) state \<Rightarrow> string \<Rightarrow> Depth \<Rightarrow>
   ('l, 'q) GenerateFullCourseOutput promise \<Rightarrow> string promise \<Rightarrow> ('l, 'q) state" where
  "handleGenerateCourse stringify now s tpc dpt action added =
     (case (if mounted s then user s else None) of
        None \<Rightarrow>
          toast ''destructive'' ''Authentication Error''
            ''You must be logged in to create a course.'' s
      | Some uid \<Rightarrow>
          (case generate_try stringify now uid (setGenerationState Generating s)
                  tpc dpt action added of
             (None, s') \<Rightarrow> s'
           | (Some err, s') \<Rightarrow>
               setGenerationState Idle
                 (toast ''destructive'' ''Error Generating Course''
                    (error_description err)
                    (console_error None err s'))))"

text \<open>
  The generation workflow from the flow on: the page's handler given what the server
  action makes of the way \<^verbatim>\<open>generateFullCourse\<close> settles.
\<close>

definition generation_workflow ::
  "((int \<times> string \<times> string) list \<Rightarrow> string) \<Rightarrow> string \<Rightarrow>
   ('l, 'q) state \<Rightarrow> string \<Rightarrow> Depth \<Rightarrow>
   ('l, 'q) GenerateFullCourseOutput promise \<Rightarrow> string promise \<Rightarrow> ('l, 'q) state" where
  "generation_workflow stringify now s tpc dpt flow added =
     handleGenerateCourse stringify now s tpc dpt (snd (generateCourseAction flow)) added"

subsection \<open>Updating a step\<close>

text \<open>\<^verbatim>\<open>{ ...step, ...newStepData }\<close>: a key of the update replaces the step's.\<close>

definition merge_step :: "('l, 'q) Step \<Rightarrow> ('l, 'q) PartialStep \<Rightarrow> ('l, 'q) Step" where
  "merge_step st upd =
     \<lparr>stepNumber = (case p_stepNumber upd of None \<Rightarrow> stepNumber st | Some v \<Rightarrow> v),
      title = (case p_title upd of None \<Rightarrow> title st | Some v \<Rightarrow> v),
      content = (case p_content upd of None \<Rightarrow> content st | Some v \<Rightarrow> v),
      completed = (case p_completed upd of None \<Rightarrow> completed st | Some v \<Rightarrow> v),
      funFact = (case p_funFact upd of None \<Rightarrow> funFact st | Some v \<Rightarrow> v),
      externalLinks = (case p_externalLinks upd of None \<Rightarrow> externalLinks st | Some v \<Rightarrow> v),
      quiz = (case p_quiz upd of None \<Rightarrow> quiz st | Some v \<Rightarrow> v)\<rparr>"

definition update_steps ::
  "int \<Rightarrow> ('l, 'q) PartialStep \<Rightarrow> ('l, 'q) Step list \<Rightarrow> ('l, 'q) Step list" where
  "update_steps n newStepData sts =
     map (\<lambda>st. if stepNumber st = n then merge_step st newStepData else st) sts"

text \<open>\<^verbatim>\<open>prevCourses.map(c => c.id === courseId ? replacement : c)\<close>\<close>

definition replace_course ::
  "string \<Rightarrow> ('l, 'q) Course \<Rightarrow> ('l, 'q) Course list \<Rightarrow> ('l, 'q) Course list" where
  "replace_course courseId replacement prevCourses =
     map (\<lambda>c. if cid c = courseId then replacement else c) prevCourses"

text \<open>The handler up to its \<^verbatim>\<open>await\<close>: the call of \<^verbatim>\<open>updateCourse\<close> is pending.\<close>

definition handleUpdateStep_optimistic ::
  "('l, 'q) state \<Rightarrow> string \<Rightarrow> int \<Rightarrow> ('l, 'q) PartialStep \<Rightarrow> ('l, 'q) state" where
  "handleUpdateStep_optimistic s courseId n newStepData =
     (if \<not> mounted s then s
      else case find_course courseId (courses s) of
             None \<Rightarrow> s
           | Some courseToUpdate \<Rightarrow>
               (let updatedSteps = update_steps n newStepData (steps courseToUpdate);
                    updatedCourse = courseToUpdate\<lparr>steps := updatedSteps\<rparr>
                in emit (Call_updateCourse courseId updatedSteps)
                     (setCourses (replace_course courseId updatedCourse) s)))"

definition handleUpdateStep ::
  "('l, 'q) state \<Rightarrow> string \<Rightarrow> int \<Rightarrow> ('l, 'q) PartialStep \<Rightarrow> unit promise \<Rightarrow>
   ('l, 'q) state" where
  "handleUpdateStep s courseId n newStepData updated =
     (if \<not> mounted s then s
      else case find_course courseId (courses s) of
             None \<Rightarrow> s
           | Some courseToUpdate \<Rightarrow>
               (let s1 = handleUpdateStep_optimistic s courseId n newStepData
                in case updated of
                     Inr _ \<Rightarrow> s1
                   | Inl err \<Rightarrow>
                       setCourses (replace_course courseId courseToUpdate)
                         (toast ''destructive'' ''Sync Error'' ''Failed to save changes.''
                            (console_error (Some ''Error updating step in DB:'') err s1))))"

subsection \<open>Asking a question about a step\<close>

definition msg_wait :: string where
  "msg_wait = ''Please wait for the page to fully load.''"

definition msg_sorry :: string where
  "msg_sorry = ''Sorry, I couldn't process your question. Please try again.''"

text \<open>
  The result is the way the handler's promise settles and the state it leaves.
  \<^verbatim>\<open>step.content || ''\<close> is the content, or the empty string for a missing one.
\<close>

definition handleAskQuestion ::
  "('l, 'q) state \<Rightarrow> ('l, 'q) Course \<Rightarrow> ('l, 'q) Step \<Rightarrow> string \<Rightarrow>
   AskStepQuestionOutput promise \<Rightarrow> AskStepQuestionOutput promise \<times> ('l, 'q) state" where
  "handleAskQuestion s crs st question action =
     (if \<not> mounted s then (Inr \<lparr>answer = msg_wait\<rparr>, s)
      else
        (let s1 = emit (Call_askQuestionAction
                     \<lparr>a_topic = topic crs, a_stepTitle = title st,
                      a_stepContent = (case content st of None \<Rightarrow> [] | Some c \<Rightarrow> c),
                      a_question = question\<rparr>) s
         in case action of
              Inr out \<Rightarrow> (Inr out, s1)
            | Inl err \<Rightarrow>
                (Inr \<lparr>answer = msg_sorry\<rparr>,
                 toast ''destructive'' ''Error Getting Answer''
                   ''Could not get an answer for this question. Please try again.''
                   (console_error None err s1))))"

subsection \<open>Deleting a course\<close>

text \<open>The handler up to its \<^verbatim>\<open>await\<close>: the remote delete is pending.\<close>

definition handleDeleteCourse_optimistic :: "('l, 'q) state \<Rightarrow> string \<Rightarrow> ('l, 'q) state" where
  "handleDeleteCourse_optimistic s courseId =
     (if \<not> mounted s then s
      else
        (let s1 = setCourses (\<lambda>prev. filter (\<lambda>c. cid c \<noteq> courseId) prev) s;
             s2 = (if activeCourseId s = Some courseId then setActiveCourseId None s1 else s1)
         in emit (Call_deleteCourse courseId) s2))"

definition handleDeleteCourse ::
  "('l, 'q) state \<Rightarrow> string \<Rightarrow> unit promise \<Rightarrow> ('l, 'q) state" where
  "handleDeleteCourse s courseId deleted =
     (if \<not> mounted s then s
      else
        (let originalCourses = courses s;
             s1 = handleDeleteCourse_optimistic s courseId
         in case deleted of
              Inr _ \<Rightarrow> s1
            | Inl err \<Rightarrow>
                setCourses (\<lambda>_. originalCourses)
                  (toast ''destructive'' ''Deletion Failed''
                     ''Could not delete course from database.''
                     (console_error (Some ''Error deleting course from DB:'') err s1))))"

subsection \<open>Concrete inputs\<close>

text \<open>
  The values the theorems below are run on. External links are strings here and a
  quiz is a string.
\<close>

definition ex_step :: "int \<Rightarrow> bool \<Rightarrow> (string, string) Step" where
  "ex_step n c =
     \<lparr>stepNumber = n, title = ''Step'', content = Some ''Text'', completed = c,
      funFact = None, externalLinks = None, quiz = None\<rparr>"

definition ex_course :: "string \<Rightarrow> (string, string) Step list \<Rightarrow> (string, string) Course" where
  "ex_course i sts =
     \<lparr>topic = ''Topic'', depth = D15, outline = ''[]'', steps = sts,
      createdAt = ''2024-01-01T00:00:00.000Z'', userId = ''u1'', cid = i\<rparr>"

text \<open>A mounted page with a signed-in user, nothing generated, nothing traced yet.\<close>

definition ex_state ::
  "(string, string) Course list \<Rightarrow> string option \<Rightarrow> (string, string) state" where
  "ex_state cs a =
     \<lparr>courses = cs, activeCourseId = a, generationState = Idle, mounted = True,
      user = Some ''u1'', trace = []\<rparr>"

definition ex_outline ::
  "int \<Rightarrow> string option \<Rightarrow> string option \<Rightarrow> (string, string) OutlineStep" where
  "ex_outline n ff qz =
     \<lparr>o_step = n, o_title = ''T'', o_description = ''D'', o_content = ''C'',
      o_funFact = ff, o_externalLinks = Some [], o_quiz = qz\<rparr>"

definition ex_stringify :: "(int \<times> string \<times> string) list \<Rightarrow> string" where
  "ex_stringify es = ''[]''"

text \<open>The update \<^verbatim>\<open>{ completed: true }\<close>.\<close>

definition ex_completed :: "(string, string) PartialStep" where
  "ex_completed =
     \<lparr>p_stepNumber = None, p_title = None, p_content = None, p_completed = Some True,
      p_funFact = None, p_externalLinks = None, p_quiz = None\<rparr>"

text \<open>
  A generation on the mounted, empty page: the handler given the action's result
  (\<open>ex_generated\<close>) and the whole workflow given the flow's result (\<open>ex_workflow\<close>);
  \<^verbatim>\<open>addCourse\<close> answers with the identifier \<^verbatim>\<open>c1\<close>.
\<close>

definition ex_generated :: "(string, string) OutlineStep list \<Rightarrow> (string, string) state" where
  "ex_generated outl =
     handleGenerateCourse ex_stringify ''2024-01-01T00:00:00.000Z'' (ex_state [] None)
       ''X'' D15 (Inr \<lparr>course = outl\<rparr>) (Inr ''c1'')"

definition ex_workflow ::
  "(string, string) GenerateFullCourseOutput promise \<Rightarrow> (string, string) state" where
  "ex_workflow flow =
     generation_workflow ex_stringify ''2024-01-01T00:00:00.000Z'' (ex_state [] None)
       ''X'' D15 flow (Inr ''c1'')"

section \<open>Properties\<close>

subsection \<open>Auxiliary facts\<close>

lemmas effect_defs = emit_def setCourses_def setActiveCourseId_def setGenerationState_def
  toast_def console_error_def

lemmas ex_defs = ex_step_def ex_course_def ex_state_def ex_outline_def ex_stringify_def
  ex_completed_def

lemma toasts_of_append: "toasts_of (xs @ ys) = toasts_of xs @ toasts_of ys"
  by (induction xs rule: toasts_of.induct) simp_all

lemma find_course_SomeD:
  "find_course i cs = Some c \<Longrightarrow> cid c = i \<and> c \<in> set cs"
  unfolding find_course_def by (induction cs) (auto split: if_splits)

lemma find_course_None_iff:
  "find_course i cs = None \<longleftrightarrow> i \<notin> cid ` set cs"
  unfolding find_course_def by (induction cs) auto

lemma find_course_replace:
  "find_course i cs = Some c \<Longrightarrow> cid r = i \<Longrightarrow> find_course i (replace_course i r cs) = Some r"
  unfolding find_course_def replace_course_def by (induction cs) (auto split: if_splits)

lemma replace_course_twice:
  "cid r' = i \<Longrightarrow> replace_course i r (replace_course i r' cs) = replace_course i r cs"
  unfolding replace_course_def by (induction cs) auto

lemma replace_course_absent:
  "i \<notin> cid ` set cs \<Longrightarrow> replace_course i r cs = cs"
  unfolding replace_course_def by (induction cs) auto

lemma replace_course_distinct:
  "distinct (map cid cs) \<Longrightarrow> find_course i cs = Some c \<Longrightarrow> replace_course i c cs = cs"
proof (induction cs)
  case Nil
  then show ?case by (simp add: replace_course_def)
next
  case (Cons a cs)
  show ?case
  proof (cases "cid a = i")
    case True
    with Cons.prems have "a = c" and "i \<notin> cid ` set cs"
      by (auto simp: find_course_def)
    then show ?thesis
      using True replace_course_absent [of i cs c] by (simp add: replace_course_def)
  next
    case False
    with Cons show ?thesis by (simp add: find_course_def replace_course_def)
  qed
qed

lemma toStep_fields:
  "stepNumber (toStep st) = o_step st"
  "title (toStep st) = o_title st"
  "content (toStep st) = Some (o_content st)"
  "completed (toStep st) = False"
  "funFact (toStep st) = (if o_funFact st = Some [] then None else o_funFact st)"
  "externalLinks (toStep st) = o_externalLinks st"
  "quiz (toStep st) = o_quiz st"
  by (simp_all add: toStep_def truthy_string_def truthy_object_def Let_def split: option.split)

text \<open>The step built for a gateway entry, written out.\<close>

lemma toStep_record:
  "toStep e =
     \<lparr>stepNumber = o_step e, title = o_title e, content = Some (o_content e),
      completed = False,
      funFact = (if o_funFact e = Some [] then None else o_funFact e),
      externalLinks = o_externalLinks e, quiz = o_quiz e\<rparr>"
  by (simp add: toStep_def truthy_string_def truthy_object_def Let_def split: option.split)

lemma generateCourseAction_passes:
  "course result \<noteq> [] \<Longrightarrow> snd (generateCourseAction (Inr result)) = Inr result"
  by (simp add: generateCourseAction_def)

lemma generateCourseAction_fails:
  "snd (generateCourseAction (Inl err)) = Inl (JsError msg_unable)"
  "course result = [] \<Longrightarrow> snd (generateCourseAction (Inr result)) = Inl (JsError msg_unable)"
  by (simp_all add: generateCourseAction_def)

text \<open>The run of \<^verbatim>\<open>handleGenerateCourse\<close> that succeeds, as one equation.\<close>

lemma handleGenerateCourse_success:
  assumes "mounted s" and "user s = Some uid" and "course result \<noteq> []"
  shows "handleGenerateCourse stringify now s tpc dpt (Inr result) (Inr newCourseId) =
     s\<lparr>courses :=
          with_id newCourseId
            \<lparr>topic = tpc, depth = dpt,
             outline = stringify (map (\<lambda>e. (o_step e, o_title e, o_description e)) (course result)),
             steps = map toStep (course result), createdAt = now, userId = uid\<rparr> # courses s,
       activeCourseId := Some newCourseId,
       generationState := Done,
       trace := trace s @
         [Set_generationState Generating,
          Call_generateCourseAction \<lparr>g_topic = tpc, g_depth = depth_toString dpt\<rparr>,
          Call_addCourse
            \<lparr>topic = tpc, depth = dpt,
             outline = stringify (map (\<lambda>e. (o_step e, o_title e, o_description e)) (course result)),
             steps = map toStep (course result), createdAt = now, userId = uid\<rparr>,
          Set_courses
            (with_id newCourseId
              \<lparr>topic = tpc, depth = dpt,
               outline = stringify (map (\<lambda>e. (o_step e, o_title e, o_description e)) (course result)),
               steps = map toStep (course result), createdAt = now, userId = uid\<rparr> # courses s),
          Set_activeCourseId (Some newCourseId),
          Set_generationState Done]\<rparr>"
  using assms
  by (simp add: handleGenerateCourse_def generate_try_def effect_defs Let_def with_id_def)

text \<open>The three runs that fail: the state left behind, with the trace up to the end.\<close>

lemma handleGenerateCourse_action_rejected:
  assumes "mounted s" and "user s = Some uid"
  shows "handleGenerateCourse stringify now s tpc dpt (Inl err) added =
     s\<lparr>generationState := Idle,
       trace := trace s @
         [Set_generationState Generating,
          Call_generateCourseAction \<lparr>g_topic = tpc, g_depth = depth_toString dpt\<rparr>,
          ConsoleError None err,
          Toast ''destructive'' ''Error Generating Course'' (error_description err),
          Set_generationState Idle]\<rparr>"
  using assms
  by (simp add: handleGenerateCourse_def generate_try_def effect_defs Let_def)

lemma handleGenerateCourse_empty:
  assumes "mounted s" and "user s = Some uid" and "course result = []"
  shows "handleGenerateCourse stringify now s tpc dpt (Inr result) added =
     s\<lparr>generationState := Idle,
       trace := trace s @
         [Set_generationState Generating,
          Call_generateCourseAction \<lparr>g_topic = tpc, g_depth = depth_toString dpt\<rparr>,
          ConsoleError None (JsError msg_failed),
          Toast ''destructive'' ''Error Generating Course'' msg_failed,
          Set_generationState Idle]\<rparr>"
  using assms
  by (simp add: handleGenerateCourse_def generate_try_def effect_defs Let_def error_description_def)

lemma handleGenerateCourse_add_rejected:
  assumes "mounted s" and "user s = Some uid" and "course result \<noteq> []"
  shows "handleGenerateCourse stringify now s tpc dpt (Inr result) (Inl err) =
     s\<lparr>generationState := Idle,
       trace := trace s @
         [Set_generationState Generating,
          Call_generateCourseAction \<lparr>g_topic = tpc, g_depth = depth_toString dpt\<rparr>,
          Call_addCourse
            \<lparr>topic = tpc, depth = dpt,
             outline = stringify (map (\<lambda>e. (o_step e, o_title e, o_description e)) (course result)),
             steps = map toStep (course result), createdAt = now, userId = uid\<rparr>,
          ConsoleError None err,
          Toast ''destructive'' ''Error Generating Course'' (error_description err),
          Set_generationState Idle]\<rparr>"
  using assms
  by (simp add: handleGenerateCourse_def generate_try_def effect_defs Let_def)

text \<open>
  On a mounted page with a signed-in user a generation ends in \<open>Done\<close> exactly when
  the action hands back a course that is not empty and \<^verbatim>\<open>addCourse\<close> answers;
  in every other case it ends in \<open>Idle\<close>.
\<close>

lemma generation_done_iff:
  assumes "mounted s" and "user s = Some uid"
  shows "generationState (handleGenerateCourse stringify now s tpc dpt action added) =
           (if (\<exists>result newCourseId. action = Inr result \<and> course result \<noteq> [] \<and>
                  added = Inr newCourseId)
            then Done else Idle)"
proof (cases action)
  case (Inl err)
  then show ?thesis
    using assms by (simp add: handleGenerateCourse_action_rejected)
next
  case (Inr result)
  show ?thesis
  proof (cases "course result = []")
    case True
    with Inr assms show ?thesis by (simp add: handleGenerateCourse_empty)
  next
    case False
    with Inr assms show ?thesis
      by (cases added) (simp_all add: handleGenerateCourse_add_rejected handleGenerateCourse_success)
  qed
qed

subsection \<open>Step mutation\<close>

text \<open>
  C1. A step update that reaches the persistence call (the page is mounted and the
  course is in the collection). If \<^verbatim>\<open>updateCourse\<close> succeeds, the collection's
  entry for the course is the course as it was before, where every step that has the
  given number has, field by field, the value of the update where the update has the
  key and its own value where it has not, and every other step is as it was; no toast
  is shown. If \<^verbatim>\<open>updateCourse\<close> fails, the entry is exactly the course as it
  was before the update (and, when identifiers are unique, so is the whole collection),
  and the toast "Sync Error" is shown.
\<close>

theorem update_step_settles:
  assumes "mounted s" and "find (\<lambda>c. cid c = courseId) (courses s) = Some c0"
  shows "find (\<lambda>c. cid c = courseId)
           (courses (handleUpdateStep s courseId n upd (Inr ()))) =
           Some (c0\<lparr>steps :=
             map (\<lambda>st. if stepNumber st = n
                    then \<lparr>stepNumber =
                            (case p_stepNumber upd of None \<Rightarrow> stepNumber st | Some v \<Rightarrow> v),
                          title = (case p_title upd of None \<Rightarrow> title st | Some v \<Rightarrow> v),
                          content = (case p_content upd of None \<Rightarrow> content st | Some v \<Rightarrow> v),
                          completed =
                            (case p_completed upd of None \<Rightarrow> completed st | Some v \<Rightarrow> v),
                          funFact = (case p_funFact upd of None \<Rightarrow> funFact st | Some v \<Rightarrow> v),
                          externalLinks =
                            (case p_externalLinks upd of None \<Rightarrow> externalLinks st
                             | Some v \<Rightarrow> v),
                          quiz = (case p_quiz upd of None \<Rightarrow> quiz st | Some v \<Rightarrow> v)\<rparr>
                    else st)
               (steps c0)\<rparr>)
       \<and> toasts_of (trace (handleUpdateStep s courseId n upd (Inr ()))) = toasts_of (trace s)
       \<and> find (\<lambda>c. cid c = courseId)
           (courses (handleUpdateStep s courseId n upd (Inl err))) = Some c0
       \<and> (distinct (map cid (courses s)) \<longrightarrow>
            courses (handleUpdateStep s courseId n upd (Inl err)) = courses s)
       \<and> toasts_of (trace (handleUpdateStep s courseId n upd (Inl err))) =
           toasts_of (trace s) @ [(''destructive'', ''Sync Error'', ''Failed to save changes.'')]"
proof -
  let ?c1 = "c0\<lparr>steps := update_steps n upd (steps c0)\<rparr>"
  have found: "find_course courseId (courses s) = Some c0"
    using assms(2) by (simp add: find_course_def)
  have c0: "cid c0 = courseId"
    using found by (simp add: find_course_SomeD)
  then have c1: "cid ?c1 = courseId"
    by simp
  have ok: "courses (handleUpdateStep s courseId n upd (Inr ())) =
              replace_course courseId ?c1 (courses s)"
    using assms(1) found
    by (simp add: handleUpdateStep_def handleUpdateStep_optimistic_def effect_defs Let_def)
  have bad: "courses (handleUpdateStep s courseId n upd (Inl err)) =
              replace_course courseId c0 (replace_course courseId ?c1 (courses s))"
    using assms(1) found
    by (simp add: handleUpdateStep_def handleUpdateStep_optimistic_def effect_defs Let_def)
  have reverted: "courses (handleUpdateStep s courseId n upd (Inl err)) =
              replace_course courseId c0 (courses s)"
    unfolding bad using c1 by (rule replace_course_twice)
  have 1: "find_course courseId (courses (handleUpdateStep s courseId n upd (Inr ()))) = Some ?c1"
    unfolding ok using found c1 by (rule find_course_replace)
  have 2: "toasts_of (trace (handleUpdateStep s courseId n upd (Inr ()))) = toasts_of (trace s)"
    using assms(1) found
    by (simp add: handleUpdateStep_def handleUpdateStep_optimistic_def effect_defs Let_def
        toasts_of_append)
  have 3: "find_course courseId (courses (handleUpdateStep s courseId n upd (Inl err))) = Some c0"
    unfolding reverted using found c0 by (rule find_course_replace)
  have 4: "distinct (map cid (courses s)) \<longrightarrow>
            courses (handleUpdateStep s courseId n upd (Inl err)) = courses s"
    unfolding reverted using found by (simp add: replace_course_distinct)
  have 5: "toasts_of (trace (handleUpdateStep s courseId n upd (Inl err))) =
           toasts_of (trace s) @ [(''destructive'', ''Sync Error'', ''Failed to save changes.'')]"
    using assms(1) found
    by (simp add: handleUpdateStep_def handleUpdateStep_optimistic_def effect_defs Let_def
        toasts_of_append)
  from 1 2 3 4 5 show ?thesis
    by (simp add: update_steps_def merge_step_def find_course_def)
qed

text \<open>
  The scenario of the specification: step 2 of course \<^verbatim>\<open>C\<close>, whose steps 1 and 2
  are not completed, is updated with \<^verbatim>\<open>{ completed: true }\<close>.
\<close>

theorem update_step_settles_witness:
  "mounted (ex_state [ex_course ''C'' [ex_step 1 False, ex_step 2 False]] (Some ''C''))
   \<and> find (\<lambda>c. cid c = ''C'')
        (courses (ex_state [ex_course ''C'' [ex_step 1 False, ex_step 2 False]] (Some ''C''))) =
       Some (ex_course ''C'' [ex_step 1 False, ex_step 2 False])
   \<and> distinct (map cid
        (courses (ex_state [ex_course ''C'' [ex_step 1 False, ex_step 2 False]] (Some ''C''))))
   \<and> find (\<lambda>c. cid c = ''C'') (courses (handleUpdateStep
        (ex_state [ex_course ''C'' [ex_step 1 False, ex_step 2 False]] (Some ''C''))
        ''C'' 2 ex_completed (Inr ()))) =
       Some (ex_course ''C'' [ex_step 1 False, ex_step 2 True])
   \<and> toasts_of (trace (handleUpdateStep
        (ex_state [ex_course ''C'' [ex_step 1 False, ex_step 2 False]] (Some ''C''))
        ''C'' 2 ex_completed (Inr ()))) = []
   \<and> courses (handleUpdateStep
        (ex_state [ex_course ''C'' [ex_step 1 False, ex_step 2 False]] (Some ''C''))
        ''C'' 2 ex_completed (Inl (JsError ''offline''))) =
       [ex_course ''C'' [ex_step 1 False, ex_step 2 False]]
   \<and> toasts_of (trace (handleUpdateStep
        (ex_state [ex_course ''C'' [ex_step 1 False, ex_step 2 False]] (Some ''C''))
        ''C'' 2 ex_completed (Inl (JsError ''offline'')))) =
       [(''destructive'', ''Sync Error'', ''Failed to save changes.'')]"
proof -
  let ?s = "ex_state [ex_course ''C'' [ex_step 1 False, ex_step 2 False]] (Some ''C'')"
  have h1: "mounted ?s"
    by (simp add: ex_defs)
  have h2: "find (\<lambda>c. cid c = ''C'') (courses ?s) =
      Some (ex_course ''C'' [ex_step 1 False, ex_step 2 False])"
    by (simp add: ex_defs)
  have h3: "distinct (map cid (courses ?s))"
    by (simp add: ex_defs)
  from update_step_settles [OF h1 h2, of 2 ex_completed "JsError ''offline''"] h1 h2 h3
  show ?thesis
    by (simp add: ex_defs)
qed

subsection \<open>Course deletion\<close>

text \<open>
  C2. A deletion on the mounted page. While the remote delete is pending, the course
  is out of the local collection and the active selection is cleared if it was this
  course: both setters have run before \<^verbatim>\<open>deleteCourse\<close> is called. A delete that
  succeeds leaves that state. A delete that fails puts back the whole collection as it
  was before the deletion, every course in its place, and shows the toast
  "Deletion Failed".
\<close>

theorem delete_course_settles:
  assumes "mounted s"
  shows "courses (handleDeleteCourse_optimistic s courseId) =
           filter (\<lambda>c. cid c \<noteq> courseId) (courses s)
       \<and> find_course courseId (courses (handleDeleteCourse_optimistic s courseId)) = None
       \<and> activeCourseId (handleDeleteCourse_optimistic s courseId) =
           (if activeCourseId s = Some courseId then None else activeCourseId s)
       \<and> trace (handleDeleteCourse_optimistic s courseId) =
           trace s @ [Set_courses (filter (\<lambda>c. cid c \<noteq> courseId) (courses s))] @
           (if activeCourseId s = Some courseId then [Set_activeCourseId None] else []) @
           [Call_deleteCourse courseId]
       \<and> handleDeleteCourse s courseId (Inr ()) = handleDeleteCourse_optimistic s courseId
       \<and> courses (handleDeleteCourse s courseId (Inl err)) = courses s
       \<and> toasts_of (trace (handleDeleteCourse s courseId (Inl err))) =
           toasts_of (trace s) @
           [(''destructive'', ''Deletion Failed'', ''Could not delete course from database.'')]"
proof -
  have 1: "courses (handleDeleteCourse_optimistic s courseId) =
           filter (\<lambda>c. cid c \<noteq> courseId) (courses s)"
    using assms by (simp add: handleDeleteCourse_optimistic_def effect_defs Let_def)
  have 2: "find_course courseId (courses (handleDeleteCourse_optimistic s courseId)) = None"
    unfolding 1 by (auto simp add: find_course_None_iff)
  have 3: "activeCourseId (handleDeleteCourse_optimistic s courseId) =
           (if activeCourseId s = Some courseId then None else activeCourseId s)"
    using assms by (simp add: handleDeleteCourse_optimistic_def effect_defs Let_def)
  have 4: "trace (handleDeleteCourse_optimistic s courseId) =
           trace s @ [Set_courses (filter (\<lambda>c. cid c \<noteq> courseId) (courses s))] @
           (if activeCourseId s = Some courseId then [Set_activeCourseId None] else []) @
           [Call_deleteCourse courseId]"
    using assms by (simp add: handleDeleteCourse_optimistic_def effect_defs Let_def)
  have 5: "handleDeleteCourse s courseId (Inr ()) = handleDeleteCourse_optimistic s courseId"
    using assms by (simp add: handleDeleteCourse_def)
  have 6: "courses (handleDeleteCourse s courseId (Inl err)) = courses s"
    using assms by (simp add: handleDeleteCourse_def effect_defs Let_def)
  have 7: "toasts_of (trace (handleDeleteCourse s courseId (Inl err))) =
           toasts_of (trace s) @
           [(''destructive'', ''Deletion Failed'', ''Could not delete course from database.'')]"
    using assms
    by (simp add: handleDeleteCourse_def effect_defs Let_def 4 toasts_of_append)
  from 1 2 3 4 5 6 7 show ?thesis
    by blast
qed

text \<open>
  The scenario of the specification: the collection is \<^verbatim>\<open>[A, B]\<close>, \<^verbatim>\<open>A\<close> is
  selected and deleted, and the remote delete is rejected.
\<close>

theorem delete_course_settles_witness:
  "mounted (ex_state [ex_course ''A'' [], ex_course ''B'' []] (Some ''A''))
   \<and> courses (handleDeleteCourse_optimistic
        (ex_state [ex_course ''A'' [], ex_course ''B'' []] (Some ''A'')) ''A'') =
       [ex_course ''B'' []]
   \<and> activeCourseId (handleDeleteCourse_optimistic
        (ex_state [ex_course ''A'' [], ex_course ''B'' []] (Some ''A'')) ''A'') = None
   \<and> trace (handleDeleteCourse_optimistic
        (ex_state [ex_course ''A'' [], ex_course ''B'' []] (Some ''A'')) ''A'') =
       [Set_courses [ex_course ''B'' []], Set_activeCourseId None, Call_deleteCourse ''A'']
   \<and> courses (handleDeleteCourse
        (ex_state [ex_course ''A'' [], ex_course ''B'' []] (Some ''A'')) ''A''
        (Inl (JsError ''offline''))) =
       [ex_course ''A'' [], ex_course ''B'' []]
   \<and> toasts_of (trace (handleDeleteCourse
        (ex_state [ex_course ''A'' [], ex_course ''B'' []] (Some ''A'')) ''A''
        (Inl (JsError ''offline'')))) =
       [(''destructive'', ''Deletion Failed'', ''Could not delete course from database.'')]"
proof -
  let ?s = "ex_state [ex_course ''A'' [], ex_course ''B'' []] (Some ''A'')"
  have h: "mounted ?s"
    by (simp add: ex_defs)
  from delete_course_settles [OF h, of "''A''" "JsError ''offline''"] h
  show ?thesis
    by (simp add: ex_defs)
qed

text \<open>
  C10. When the course deleted is the active one and the remote delete fails, the
  collection is back as it was, the course included, but the active selection stays
  cleared: there is no active course.
\<close>

theorem failed_delete_leaves_selection_cleared:
  assumes "mounted s" and "activeCourseId s = Some courseId"
  shows "courses (handleDeleteCourse s courseId (Inl err)) = courses s
       \<and> activeCourseId (handleDeleteCourse s courseId (Inl err)) = None
       \<and> activeCourse (handleDeleteCourse s courseId (Inl err)) = None"
  using assms
  by (simp add: handleDeleteCourse_def handleDeleteCourse_optimistic_def effect_defs Let_def
      activeCourse_def find_None_iff)

theorem failed_delete_leaves_selection_cleared_witness:
  "mounted (ex_state [ex_course ''A'' [], ex_course ''B'' []] (Some ''A''))
   \<and> activeCourseId (ex_state [ex_course ''A'' [], ex_course ''B'' []] (Some ''A'')) = Some ''A''
   \<and> activeCourse (ex_state [ex_course ''A'' [], ex_course ''B'' []] (Some ''A'')) =
       Some (ex_course ''A'' [])
   \<and> courses (handleDeleteCourse
        (ex_state [ex_course ''A'' [], ex_course ''B'' []] (Some ''A'')) ''A''
        (Inl (JsError ''offline''))) =
       [ex_course ''A'' [], ex_course ''B'' []]
   \<and> activeCourseId (handleDeleteCourse
        (ex_state [ex_course ''A'' [], ex_course ''B'' []] (Some ''A'')) ''A''
        (Inl (JsError ''offline''))) = None
   \<and> activeCourse (handleDeleteCourse
        (ex_state [ex_course ''A'' [], ex_course ''B'' []] (Some ''A'')) ''A''
        (Inl (JsError ''offline''))) = None"
proof -
  let ?s = "ex_state [ex_course ''A'' [], ex_course ''B'' []] (Some ''A'')"
  have h1: "mounted ?s"
    by (simp add: ex_defs)
  have h2: "activeCourseId ?s = Some ''A''"
    by (simp add: ex_defs)
  have before: "activeCourse ?s = Some (ex_course ''A'' [])"
    by (simp add: ex_defs activeCourse_def)
  from failed_delete_leaves_selection_cleared [OF h1 h2, of "JsError ''offline''"] h1 h2 before
  show ?thesis
    by (simp add: ex_defs)
qed

subsection \<open>Active selection\<close>

text \<open>
  C8. The active course is the result of looking the active identifier up in the
  collection, and depends on nothing else. It is no course exactly when no course of
  the collection has the active identifier (in particular for \<^verbatim>\<open>null\<close>); a
  course it yields is in the collection and has the active identifier. Selecting an
  identifier that is not in the collection yields no active course. The lookup is a
  total function: there is no input on which it fails.
\<close>

theorem activeCourse_is_lookup:
  "activeCourse s =
     (case activeCourseId s of None \<Rightarrow> None | Some i \<Rightarrow> find_course i (courses s))
   \<and> (activeCourse s = None \<longleftrightarrow> (\<forall>c \<in> set (courses s). activeCourseId s \<noteq> Some (cid c)))
   \<and> (\<forall>c. activeCourse s = Some c \<longrightarrow> c \<in> set (courses s) \<and> activeCourseId s = Some (cid c))
   \<and> (courses s' = courses s \<and> activeCourseId s' = activeCourseId s \<longrightarrow>
        activeCourse s' = activeCourse s)
   \<and> (courseId \<notin> cid ` set (courses s) \<longrightarrow> activeCourse (onSelectCourse courseId s) = None)"
proof -
  have 1: "activeCourse s =
      (case activeCourseId s of None \<Rightarrow> None | Some i \<Rightarrow> find_course i (courses s))"
    by (cases "activeCourseId s") (simp_all add: activeCourse_def find_course_def find_None_iff)
  have 2: "activeCourse s = None \<longleftrightarrow> (\<forall>c \<in> set (courses s). activeCourseId s \<noteq> Some (cid c))"
    by (auto simp add: activeCourse_def find_None_iff)
  have 3: "\<forall>c. activeCourse s = Some c \<longrightarrow> c \<in> set (courses s) \<and> activeCourseId s = Some (cid c)"
    by (auto simp add: activeCourse_def find_Some_iff)
  have 4: "courses s' = courses s \<and> activeCourseId s' = activeCourseId s \<longrightarrow>
        activeCourse s' = activeCourse s"
    by (simp add: activeCourse_def)
  have 5: "courseId \<notin> cid ` set (courses s) \<longrightarrow> activeCourse (onSelectCourse courseId s) = None"
    by (auto simp add: activeCourse_def onSelectCourse_def effect_defs find_None_iff)
  from 1 2 3 4 5 show ?thesis
    by blast
qed

theorem activeCourse_is_lookup_witness:
  "''Z'' \<notin> cid ` set (courses (ex_state [ex_course ''A'' [], ex_course ''B'' []] None))
   \<and> activeCourse (ex_state [ex_course ''A'' [], ex_course ''B'' []] None) = None
   \<and> activeCourse (onSelectCourse ''Z'' (ex_state [ex_course ''A'' [], ex_course ''B'' []] None)) =
       None
   \<and> activeCourse (ex_state [ex_course ''A'' [], ex_course ''B'' []] (Some ''B'')) =
       Some (ex_course ''B'' [])
   \<and> activeCourse (ex_state [ex_course ''A'' [], ex_course ''B'' []] (Some ''Z'')) =
       activeCourse (onSelectCourse ''Z'' (ex_state [ex_course ''A'' [], ex_course ''B'' []] None))"
proof -
  let ?s = "ex_state [ex_course ''A'' [], ex_course ''B'' []] None"
  let ?b = "ex_state [ex_course ''A'' [], ex_course ''B'' []] (Some ''B'')"
  let ?z = "ex_state [ex_course ''A'' [], ex_course ''B'' []] (Some ''Z'')"
  have h: "''Z'' \<notin> cid ` set (courses ?s)"
    by (simp add: ex_defs)
  have same: "courses ?z = courses (onSelectCourse ''Z'' ?s)
      \<and> activeCourseId ?z = activeCourseId (onSelectCourse ''Z'' ?s)"
    by (simp add: ex_defs onSelectCourse_def effect_defs)
  have none: "activeCourse ?s = None"
    using activeCourse_is_lookup [of ?s ?z "''Z''"] by (simp add: ex_defs)
  have sel: "activeCourse (onSelectCourse ''Z'' ?s) = None"
    using activeCourse_is_lookup [of ?s ?z "''Z''"] h by blast
  have eq: "activeCourse ?z = activeCourse (onSelectCourse ''Z'' ?s)"
    using activeCourse_is_lookup [of "onSelectCourse ''Z'' ?s" ?z] same by blast
  have "\<not> (\<forall>c \<in> set (courses ?b). activeCourseId ?b \<noteq> Some (cid c))"
    by (simp add: ex_defs)
  then have "activeCourse ?b \<noteq> None"
    using activeCourse_is_lookup [of ?b ?z "''Z''"] by blast
  then obtain c where c: "activeCourse ?b = Some c"
    by blast
  then have "c \<in> set (courses ?b)" and "activeCourseId ?b = Some (cid c)"
    using activeCourse_is_lookup [of ?b ?z "''Z''"] by blast+
  then have "c = ex_course ''B'' []"
    by (auto simp add: ex_defs)
  with c have found: "activeCourse ?b = Some (ex_course ''B'' [])"
    by simp
  from h none sel found eq show ?thesis
    by blast
qed

subsection \<open>Loading the collection\<close>

text \<open>
  C9. When \<^verbatim>\<open>getCoursesForUser\<close> fails, the promise of \<^verbatim>\<open>fetchCourses\<close>
  is fulfilled all the same, the collection, the selection and the generation state
  are what they were, and on a mounted page with a signed-in user the error is logged
  with \<^verbatim>\<open>console.error\<close> and the toast "Error" is shown.
\<close>

theorem fetch_failure_absorbed:
  "fst (fetchCourses s (Inl err)) = Inr ()
   \<and> courses (snd (fetchCourses s (Inl err))) = courses s
   \<and> activeCourseId (snd (fetchCourses s (Inl err))) = activeCourseId s
   \<and> generationState (snd (fetchCourses s (Inl err))) = generationState s
   \<and> (mounted s \<and> user s = Some uid \<longrightarrow>
        trace (snd (fetchCourses s (Inl err))) = trace s @
          [Call_getCoursesForUser uid,
           ConsoleError (Some ''Error fetching courses:'') err,
           Toast ''destructive'' ''Error'' ''Failed to load courses. Please refresh the page.''])"
  by (simp add: fetchCourses_def effect_defs split: option.split)

theorem fetch_failure_absorbed_witness:
  "mounted (ex_state [ex_course ''A'' []] None)
   \<and> user (ex_state [ex_course ''A'' []] None) = Some ''u1''
   \<and> fst (fetchCourses (ex_state [ex_course ''A'' []] None) (Inl (JsError ''offline''))) = Inr ()
   \<and> courses (snd (fetchCourses (ex_state [ex_course ''A'' []] None) (Inl (JsError ''offline'')))) =
       [ex_course ''A'' []]
   \<and> trace (snd (fetchCourses (ex_state [ex_course ''A'' []] None) (Inl (JsError ''offline'')))) =
       [Call_getCoursesForUser ''u1'',
        ConsoleError (Some ''Error fetching courses:'') (JsError ''offline''),
        Toast ''destructive'' ''Error'' ''Failed to load courses. Please refresh the page.'']"
proof -
  let ?s = "ex_state [ex_course ''A'' []] None"
  have h: "mounted ?s \<and> user ?s = Some ''u1''"
    by (simp add: ex_defs)
  from fetch_failure_absorbed [of ?s "JsError ''offline''" "''u1''"] h
  show ?thesis
    by (simp add: ex_defs)
qed

subsection \<open>Course generation\<close>

text \<open>
  C3, as the code has it. A generation succeeds when the action hands back a course
  that is not empty and \<^verbatim>\<open>addCourse\<close> answers (\<open>generation_done_iff\<close>). The
  new course then stands at the front of the collection; it has one step for each
  entry the gateway returned, every step has \<open>completed = False\<close>, and the step
  numbers are the gateway's numbers in the gateway's order. Nothing sorts or renumbers
  them: they are strictly increasing exactly when the gateway's numbers are.
\<close>

theorem generated_steps_follow_outline:
  assumes "mounted s" and "user s = Some uid" and "course result \<noteq> []"
  shows "\<exists>c. courses (handleGenerateCourse stringify now s tpc dpt (Inr result) (Inr newCourseId)) =
              c # courses s
     \<and> generationState
         (handleGenerateCourse stringify now s tpc dpt (Inr result) (Inr newCourseId)) = Done
     \<and> length (steps c) = length (course result)
     \<and> (\<forall>st \<in> set (steps c). \<not> completed st)
     \<and> map stepNumber (steps c) = map o_step (course result)
     \<and> (sorted_wrt (<) (map stepNumber (steps c)) \<longleftrightarrow>
          sorted_wrt (<) (map o_step (course result)))"
proof -
  let ?d = "\<lparr>topic = tpc, depth = dpt,
             outline = stringify (map (\<lambda>e. (o_step e, o_title e, o_description e)) (course result)),
             steps = map toStep (course result), createdAt = now, userId = uid\<rparr>"
  let ?c = "with_id newCourseId ?d"
  have st: "steps ?c = map toStep (course result)"
    by (simp add: with_id_def)
  have nums: "map stepNumber (steps ?c) = map o_step (course result)"
    unfolding st by (simp add: toStep_fields)
  have "courses (handleGenerateCourse stringify now s tpc dpt (Inr result) (Inr newCourseId)) =
          ?c # courses s"
    and "generationState
          (handleGenerateCourse stringify now s tpc dpt (Inr result) (Inr newCourseId)) = Done"
    using assms by (simp_all add: handleGenerateCourse_success)
  moreover have "length (steps ?c) = length (course result)"
    unfolding st by simp
  moreover have "\<forall>st \<in> set (steps ?c). \<not> completed st"
    unfolding st by (auto simp add: toStep_fields)
  moreover have "sorted_wrt (<) (map stepNumber (steps ?c)) \<longleftrightarrow>
      sorted_wrt (<) (map o_step (course result))"
    unfolding nums ..
  ultimately show ?thesis
    using nums by blast
qed

theorem generated_steps_follow_outline_witness:
  "mounted (ex_state [] None) \<and> user (ex_state [] None) = Some ''u1''
   \<and> generationState (ex_generated [ex_outline 1 None None, ex_outline 2 None None]) = Done
   \<and> length (steps (hd (courses
        (ex_generated [ex_outline 1 None None, ex_outline 2 None None])))) = 2
   \<and> map completed (steps (hd (courses
        (ex_generated [ex_outline 1 None None, ex_outline 2 None None])))) = [False, False]
   \<and> map stepNumber (steps (hd (courses
        (ex_generated [ex_outline 1 None None, ex_outline 2 None None])))) = [1, 2]"
proof -
  let ?r = "\<lparr>course = [ex_outline 1 None None, ex_outline 2 None None]\<rparr>"
  have h1: "mounted (ex_state [] None)" and h2: "user (ex_state [] None) = Some ''u1''"
    by (simp_all add: ex_defs)
  have h3: "course ?r \<noteq> []"
    by simp
  from generated_steps_follow_outline [OF h1 h2 h3, of ex_stringify
      "''2024-01-01T00:00:00.000Z''" "''X''" D15 "''c1''"]
  obtain c where c: "courses (ex_generated (course ?r)) = c # courses (ex_state [] None)"
    and dn: "generationState (ex_generated (course ?r)) = Done"
    and len: "length (steps c) = length (course ?r)"
    and compl: "\<forall>st \<in> set (steps c). \<not> completed st"
    and nums: "map stepNumber (steps c) = map o_step (course ?r)"
    unfolding ex_generated_def by auto
  have hd: "hd (courses (ex_generated [ex_outline 1 None None, ex_outline 2 None None])) = c"
    using c by simp
  have "map completed (steps c) = replicate (length (steps c)) False"
    using compl by (simp add: map_replicate_const [symmetric] cong: map_cong)
  then have "map completed (steps c) = [False, False]"
    using len by (simp add: numeral_2_eq_2)
  with h1 h2 dn len nums show ?thesis
    unfolding hd by (simp add: ex_defs)
qed

text \<open>
  C3 as stated fails: the gateway's entries numbered 2, 1 pass the action and give a
  successful generation whose step numbers are 2, 1.
\<close>

theorem generated_step_numbers_not_increasing:
  "generationState
     (ex_workflow (Inr \<lparr>course = [ex_outline 2 None None, ex_outline 1 None None]\<rparr>)) = Done
   \<and> map stepNumber (steps (hd (courses
       (ex_workflow (Inr \<lparr>course = [ex_outline 2 None None, ex_outline 1 None None]\<rparr>))))) =
     [2, 1]
   \<and> \<not> sorted_wrt (<) (map stepNumber (steps (hd (courses
       (ex_workflow (Inr \<lparr>course = [ex_outline 2 None None, ex_outline 1 None None]\<rparr>))))))"
  by (simp add: ex_workflow_def generation_workflow_def generateCourseAction_def
      handleGenerateCourse_def generate_try_def effect_defs Let_def with_id_def toStep_fields
      ex_defs)

text \<open>
  The action never hands back an empty course: the error it throws for one is caught
  by its own catch clause. The page's guard for an empty course, with the message
  \<open>msg_failed\<close> (\<open>handleGenerateCourse_empty\<close>), is therefore not reached
  through the action.
\<close>

lemma generateCourseAction_never_empty:
  "snd (generateCourseAction flow) = Inr r \<Longrightarrow> course r \<noteq> []"
  by (auto simp add: generateCourseAction_def split: sum.splits if_splits)

text \<open>
  The workflow from the flow on, for a flow that returns no step, on a mounted page
  with a signed-in user: the state ends at \<open>Idle\<close>, the collection and the selection
  are as they were, \<^verbatim>\<open>addCourse\<close> is not called, and the one toast has the
  description \<open>msg_unable\<close>. The page is left exactly as a rejection of the flow
  leaves it, whatever the flow was rejected with.
\<close>

lemma empty_generation_workflow:
  assumes "mounted s" and "user s = Some uid" and "course result = []"
  shows "generationState (generation_workflow stringify now s tpc dpt (Inr result) added) = Idle
     \<and> courses (generation_workflow stringify now s tpc dpt (Inr result) added) = courses s
     \<and> activeCourseId (generation_workflow stringify now s tpc dpt (Inr result) added) =
         activeCourseId s
     \<and> trace (generation_workflow stringify now s tpc dpt (Inr result) added) = trace s @
         [Set_generationState Generating,
          Call_generateCourseAction \<lparr>g_topic = tpc, g_depth = depth_toString dpt\<rparr>,
          ConsoleError None (JsError msg_unable),
          Toast ''destructive'' ''Error Generating Course'' msg_unable,
          Set_generationState Idle]
     \<and> generation_workflow stringify now s tpc dpt (Inr result) added =
         generation_workflow stringify now s tpc dpt (Inl err) added"
proof -
  have w: "generation_workflow stringify now s tpc dpt (Inr result) added =
      handleGenerateCourse stringify now s tpc dpt (Inl (JsError msg_unable)) added"
    using assms(3) by (simp add: generation_workflow_def generateCourseAction_fails)
  have w': "generation_workflow stringify now s tpc dpt (Inl err) added =
      handleGenerateCourse stringify now s tpc dpt (Inl (JsError msg_unable)) added"
    by (simp add: generation_workflow_def generateCourseAction_fails)
  have d: "error_description (JsError msg_unable) = msg_unable"
    by (simp add: error_description_def)
  show ?thesis
    unfolding w w'
    by (simp add: handleGenerateCourse_action_rejected [OF assms(1,2)] d)
qed

text \<open>
  C4, run on the code: a signed-in user on the mounted, empty page asks for a course
  on \<^verbatim>\<open>X\<close> of depth 15 and the flow returns no step. The generation fails, the
  state ends at \<open>Idle\<close>, \<^verbatim>\<open>addCourse\<close> is not called and no course is
  inserted. But the toast has the description "The AI was unable to generate a course
  ...", the message of the action's catch clause, and the page is left exactly as a
  transport error of the flow leaves it: the message is not distinct from the one of
  a transport error. The message for an empty result, "The AI failed to generate a
  course ...", is in the code, and differs from the other: the action throws it inside
  its own try block, where its catch clause replaces it, and the page shows it only
  when it is itself handed an empty course.
\<close>

theorem empty_result_shows_the_transport_message:
  "generationState (ex_workflow (Inr \<lparr>course = []\<rparr>)) = Idle
   \<and> courses (ex_workflow (Inr \<lparr>course = []\<rparr>)) = []
   \<and> trace (ex_workflow (Inr \<lparr>course = []\<rparr>)) =
       [Set_generationState Generating,
        Call_generateCourseAction \<lparr>g_topic = ''X'', g_depth = ''15''\<rparr>,
        ConsoleError None (JsError
          ''The AI was unable to generate a course for this topic. This can happen with very specific or sensitive subjects. Please try a broader or different topic.''),
        Toast ''destructive'' ''Error Generating Course''
          ''The AI was unable to generate a course for this topic. This can happen with very specific or sensitive subjects. Please try a broader or different topic.'',
        Set_generationState Idle]
   \<and> ex_workflow (Inr \<lparr>course = []\<rparr>) = ex_workflow (Inl (JsError ''fetch failed''))
   \<and> toasts_of (trace (ex_workflow (Inl (JsError ''fetch failed'')))) =
       [(''destructive'', ''Error Generating Course'',
         ''The AI was unable to generate a course for this topic. This can happen with very specific or sensitive subjects. Please try a broader or different topic.'')]
   \<and> fst (generateCourseAction
        (Inr (\<lparr>course = []\<rparr> :: (string, string) GenerateFullCourseOutput))) =
       [(''Error in generateCourseAction:'', JsError
          ''The AI failed to generate a course for this topic. Please try a different topic.'')]
   \<and> toasts_of (trace (ex_generated [])) =
       [(''destructive'', ''Error Generating Course'',
         ''The AI failed to generate a course for this topic. Please try a different topic.'')]"
  by (simp add: ex_workflow_def ex_generated_def generation_workflow_def
      generateCourseAction_def handleGenerateCourse_def generate_try_def effect_defs Let_def
      error_description_def msg_failed_def msg_unable_def ex_defs)

text \<open>
  C5. On a mounted page with a signed-in user, once the action has handed back a
  course that is not empty: \<^verbatim>\<open>addCourse\<close> is called with the new course's data
  (the topic and depth asked for, the outline text of the gateway's entries, one step
  for each entry, the time of creation and the user's identifier); when it answers with
  an identifier, the course with exactly these data and that identifier is put at
  index 0 of the collection, then made the active selection, then the generation state
  is set to \<open>Done\<close>, in this order, and the active course is the new course. When
  \<^verbatim>\<open>addCourse\<close> fails, or when the action does, the state ends at \<open>Idle\<close>
  with the collection and the selection as they were, and the toast's description is
  the message of the error thrown if it is an \<^verbatim>\<open>Error\<close>, else
  "An unknown error occurred.".
\<close>

theorem accepted_generation_persists_then_inserts:
  assumes "mounted s" and "user s = Some uid" and "course result \<noteq> []"
  shows "(\<exists>sts d c.
            sts = map (\<lambda>e. \<lparr>stepNumber = o_step e, title = o_title e,
                              content = Some (o_content e), completed = False,
                              funFact = (if o_funFact e = Some [] then None else o_funFact e),
                              externalLinks = o_externalLinks e, quiz = o_quiz e\<rparr>)
                    (course result)
            \<and> d = \<lparr>topic = tpc, depth = dpt,
                    outline = stringify
                      (map (\<lambda>e. (o_step e, o_title e, o_description e)) (course result)),
                    steps = sts, createdAt = now, userId = uid\<rparr>
            \<and> c = \<lparr>topic = tpc, depth = dpt,
                    outline = stringify
                      (map (\<lambda>e. (o_step e, o_title e, o_description e)) (course result)),
                    steps = sts, createdAt = now, userId = uid, cid = newCourseId\<rparr>
            \<and> handleGenerateCourse stringify now s tpc dpt (Inr result) (Inr newCourseId) =
                s\<lparr>courses := c # courses s,
                  activeCourseId := Some newCourseId,
                  generationState := Done,
                  trace := trace s @
                    [Set_generationState Generating,
                     Call_generateCourseAction
                       \<lparr>g_topic = tpc,
                        g_depth = (case dpt of D15 \<Rightarrow> ''15'' | D30 \<Rightarrow> ''30'')\<rparr>,
                     Call_addCourse d,
                     Set_courses (c # courses s),
                     Set_activeCourseId (Some newCourseId),
                     Set_generationState Done]\<rparr>
            \<and> courses (handleGenerateCourse stringify now s tpc dpt (Inr result)
                  (Inr newCourseId)) ! 0 = c
            \<and> activeCourse (handleGenerateCourse stringify now s tpc dpt (Inr result)
                  (Inr newCourseId)) = Some c)
     \<and> generationState (handleGenerateCourse stringify now s tpc dpt (Inr result) (Inl err)) = Idle
     \<and> courses (handleGenerateCourse stringify now s tpc dpt (Inr result) (Inl err)) = courses s
     \<and> activeCourseId (handleGenerateCourse stringify now s tpc dpt (Inr result) (Inl err)) =
         activeCourseId s
     \<and> toasts_of (trace (handleGenerateCourse stringify now s tpc dpt (Inr result) (Inl err))) =
         toasts_of (trace s) @
         [(''destructive'', ''Error Generating Course'',
           case err of JsError m \<Rightarrow> m | NonError \<Rightarrow> ''An unknown error occurred.'')]
     \<and> generationState (handleGenerateCourse stringify now s tpc dpt (Inl err) added) = Idle
     \<and> courses (handleGenerateCourse stringify now s tpc dpt (Inl err) added) = courses s
     \<and> activeCourseId (handleGenerateCourse stringify now s tpc dpt (Inl err) added) =
         activeCourseId s
     \<and> toasts_of (trace (handleGenerateCourse stringify now s tpc dpt (Inl err) added)) =
         toasts_of (trace s) @
         [(''destructive'', ''Error Generating Course'',
           case err of JsError m \<Rightarrow> m | NonError \<Rightarrow> ''An unknown error occurred.'')]"
proof -
  let ?sts = "map (\<lambda>e. \<lparr>stepNumber = o_step e, title = o_title e,
                              content = Some (o_content e), completed = False,
                              funFact = (if o_funFact e = Some [] then None else o_funFact e),
                              externalLinks = o_externalLinks e, quiz = o_quiz e\<rparr>)
                    (course result)"
  let ?d = "\<lparr>topic = tpc, depth = dpt,
             outline = stringify (map (\<lambda>e. (o_step e, o_title e, o_description e)) (course result)),
             steps = ?sts, createdAt = now, userId = uid\<rparr>"
  let ?c = "\<lparr>topic = tpc, depth = dpt,
             outline = stringify (map (\<lambda>e. (o_step e, o_title e, o_description e)) (course result)),
             steps = ?sts, createdAt = now, userId = uid, cid = newCourseId\<rparr>"
  let ?ok = "handleGenerateCourse stringify now s tpc dpt (Inr result) (Inr newCourseId)"
  have sts: "map toStep (course result) = ?sts"
    by (simp add: toStep_record)
  have dep: "depth_toString dpt = (case dpt of D15 \<Rightarrow> ''15'' | D30 \<Rightarrow> ''30'')"
    by (cases dpt) simp_all
  have ok: "?ok =
      s\<lparr>courses := ?c # courses s,
        activeCourseId := Some newCourseId,
        generationState := Done,
        trace := trace s @
          [Set_generationState Generating,
           Call_generateCourseAction
             \<lparr>g_topic = tpc, g_depth = (case dpt of D15 \<Rightarrow> ''15'' | D30 \<Rightarrow> ''30'')\<rparr>,
           Call_addCourse ?d,
           Set_courses (?c # courses s),
           Set_activeCourseId (Some newCourseId),
           Set_generationState Done]\<rparr>"
    unfolding handleGenerateCourse_success [OF assms, of stringify now tpc dpt newCourseId]
      sts dep
    by (simp add: with_id_def)
  have front: "courses ?ok ! 0 = ?c"
    unfolding ok by simp
  have active: "activeCourse ?ok = Some ?c"
    unfolding ok by (simp add: activeCourse_def)
  from ok front active have success:
    "\<exists>sts d c.
            sts = ?sts
            \<and> d = \<lparr>topic = tpc, depth = dpt,
                    outline = stringify
                      (map (\<lambda>e. (o_step e, o_title e, o_description e)) (course result)),
                    steps = sts, createdAt = now, userId = uid\<rparr>
            \<and> c = \<lparr>topic = tpc, depth = dpt,
                    outline = stringify
                      (map (\<lambda>e. (o_step e, o_title e, o_description e)) (course result)),
                    steps = sts, createdAt = now, userId = uid, cid = newCourseId\<rparr>
            \<and> ?ok =
                s\<lparr>courses := c # courses s,
                  activeCourseId := Some newCourseId,
                  generationState := Done,
                  trace := trace s @
                    [Set_generationState Generating,
                     Call_generateCourseAction
                       \<lparr>g_topic = tpc,
                        g_depth = (case dpt of D15 \<Rightarrow> ''15'' | D30 \<Rightarrow> ''30'')\<rparr>,
                     Call_addCourse d,
                     Set_courses (c # courses s),
                     Set_activeCourseId (Some newCourseId),
                     Set_generationState Done]\<rparr>
            \<and> courses ?ok ! 0 = c
            \<and> activeCourse ?ok = Some c"
    by blast
  have add_failed:
    "generationState (handleGenerateCourse stringify now s tpc dpt (Inr result) (Inl err)) = Idle
     \<and> courses (handleGenerateCourse stringify now s tpc dpt (Inr result) (Inl err)) = courses s
     \<and> activeCourseId (handleGenerateCourse stringify now s tpc dpt (Inr result) (Inl err)) =
         activeCourseId s
     \<and> toasts_of (trace (handleGenerateCourse stringify now s tpc dpt (Inr result) (Inl err))) =
         toasts_of (trace s) @
         [(''destructive'', ''Error Generating Course'',
           case err of JsError m \<Rightarrow> m | NonError \<Rightarrow> ''An unknown error occurred.'')]"
    by (simp add: handleGenerateCourse_add_rejected [OF assms] toasts_of_append
        error_description_def)
  have action_failed:
    "generationState (handleGenerateCourse stringify now s tpc dpt (Inl err) added) = Idle
     \<and> courses (handleGenerateCourse stringify now s tpc dpt (Inl err) added) = courses s
     \<and> activeCourseId (handleGenerateCourse stringify now s tpc dpt (Inl err) added) =
         activeCourseId s
     \<and> toasts_of (trace (handleGenerateCourse stringify now s tpc dpt (Inl err) added)) =
         toasts_of (trace s) @
         [(''destructive'', ''Error Generating Course'',
           case err of JsError m \<Rightarrow> m | NonError \<Rightarrow> ''An unknown error occurred.'')]"
    by (simp add: handleGenerateCourse_action_rejected [OF assms(1,2)] toasts_of_append
        error_description_def)
  from success add_failed action_failed show ?thesis
    by blast
qed

theorem accepted_generation_persists_then_inserts_witness:
  "mounted (ex_state [ex_course ''A'' []] (Some ''A''))
   \<and> user (ex_state [ex_course ''A'' []] (Some ''A'')) = Some ''u1''
   \<and> courses (handleGenerateCourse ex_stringify ''2024-01-01T00:00:00.000Z''
        (ex_state [ex_course ''A'' []] (Some ''A'')) ''X'' D15
        (Inr \<lparr>course = [ex_outline 1 None None]\<rparr>) (Inr ''c1'')) =
       [\<lparr>topic = ''X'', depth = D15, outline = ''[]'',
         steps = [\<lparr>stepNumber = 1, title = ''T'', content = Some ''C'', completed = False,
                   funFact = None, externalLinks = Some [], quiz = None\<rparr>],
         createdAt = ''2024-01-01T00:00:00.000Z'', userId = ''u1'', cid = ''c1''\<rparr>,
        ex_course ''A'' []]
   \<and> activeCourseId (handleGenerateCourse ex_stringify ''2024-01-01T00:00:00.000Z''
        (ex_state [ex_course ''A'' []] (Some ''A'')) ''X'' D15
        (Inr \<lparr>course = [ex_outline 1 None None]\<rparr>) (Inr ''c1'')) = Some ''c1''
   \<and> generationState (handleGenerateCourse ex_stringify ''2024-01-01T00:00:00.000Z''
        (ex_state [ex_course ''A'' []] (Some ''A'')) ''X'' D15
        (Inr \<lparr>course = [ex_outline 1 None None]\<rparr>) (Inr ''c1'')) = Done
   \<and> generationState (handleGenerateCourse ex_stringify ''2024-01-01T00:00:00.000Z''
        (ex_state [ex_course ''A'' []] (Some ''A'')) ''X'' D15
        (Inr \<lparr>course = [ex_outline 1 None None]\<rparr>) (Inl NonError)) = Idle
   \<and> toasts_of (trace (handleGenerateCourse ex_stringify ''2024-01-01T00:00:00.000Z''
        (ex_state [ex_course ''A'' []] (Some ''A'')) ''X'' D15
        (Inr \<lparr>course = [ex_outline 1 None None]\<rparr>) (Inl NonError))) =
       [(''destructive'', ''Error Generating Course'', ''An unknown error occurred.'')]"
proof -
  let ?s = "ex_state [ex_course ''A'' []] (Some ''A'')"
  let ?r = "\<lparr>course = [ex_outline 1 None None]\<rparr>"
  let ?ok = "handleGenerateCourse ex_stringify ''2024-01-01T00:00:00.000Z'' ?s ''X'' D15
        (Inr ?r) (Inr ''c1'')"
  let ?bad = "handleGenerateCourse ex_stringify ''2024-01-01T00:00:00.000Z'' ?s ''X'' D15
        (Inr ?r) (Inl NonError)"
  let ?new = "\<lparr>topic = ''X'', depth = D15, outline = ''[]'',
         steps = [\<lparr>stepNumber = 1, title = ''T'', content = Some ''C'', completed = False,
                   funFact = None, externalLinks = Some [], quiz = None\<rparr>],
         createdAt = ''2024-01-01T00:00:00.000Z'', userId = ''u1'', cid = ''c1''\<rparr>"
  have h1: "mounted ?s" and h2: "user ?s = Some ''u1''"
    by (simp_all add: ex_defs)
  have h3: "course ?r \<noteq> []"
    by simp
  have cs: "courses ?s = [ex_course ''A'' []]" and tr: "toasts_of (trace ?s) = []"
    by (simp_all add: ex_defs)
  note run = accepted_generation_persists_then_inserts [OF h1 h2 h3,
      where stringify = ex_stringify and now = "''2024-01-01T00:00:00.000Z''"
        and tpc = "''X''" and dpt = D15 and newCourseId = "''c1''" and err = NonError
        and added = "Inr ''c1''"]
  from run obtain c where c: "c = ?new"
    and ok: "courses ?ok ! 0 = c" "?ok =
      ?s\<lparr>courses := c # courses ?s, activeCourseId := Some ''c1'',
         generationState := Done,
         trace := trace ?s @
           [Set_generationState Generating,
            Call_generateCourseAction \<lparr>g_topic = ''X'', g_depth = ''15''\<rparr>,
            Call_addCourse (CourseData.truncate c), Set_courses (c # courses ?s),
            Set_activeCourseId (Some ''c1''), Set_generationState Done]\<rparr>"
    by (auto simp add: ex_defs CourseData.truncate_def CourseData.defs Course.defs)
  have "courses ?ok = [?new, ex_course ''A'' []]"
    unfolding ok(2) c cs by simp
  moreover have "activeCourseId ?ok = Some ''c1''" and "generationState ?ok = Done"
    unfolding ok(2) by simp_all
  moreover have "generationState ?bad = Idle"
    using run by blast
  moreover have "toasts_of (trace ?bad) = toasts_of (trace ?s) @
      [(''destructive'', ''Error Generating Course'',
        case NonError of JsError m \<Rightarrow> m | NonError \<Rightarrow> ''An unknown error occurred.'')]"
    using run by blast
  then have "toasts_of (trace ?bad) =
      [(''destructive'', ''Error Generating Course'', ''An unknown error occurred.'')]"
    using tr by simp
  ultimately show ?thesis
    using h1 h2 by blast
qed

text \<open>
  C6, as the code has it. In the steps of a generated course the external links and
  the quiz of every step are the gateway's, present or absent, unchanged. The fun fact
  is the gateway's when that is a string that is not empty; a missing fun fact and an
  empty one both give a step with no fun fact. No optional field is ever given a
  placeholder value.
\<close>

theorem optional_fields_copied_when_truthy:
  assumes "mounted s" and "user s = Some uid" and "course result \<noteq> []"
  shows "\<exists>c. courses (handleGenerateCourse stringify now s tpc dpt (Inr result) (Inr newCourseId)) =
              c # courses s
     \<and> map funFact (steps c) =
         map (\<lambda>e. if o_funFact e = Some [] then None else o_funFact e) (course result)
     \<and> map externalLinks (steps c) = map o_externalLinks (course result)
     \<and> map quiz (steps c) = map o_quiz (course result)"
proof -
  let ?d = "\<lparr>topic = tpc, depth = dpt,
             outline = stringify (map (\<lambda>e. (o_step e, o_title e, o_description e)) (course result)),
             steps = map toStep (course result), createdAt = now, userId = uid\<rparr>"
  let ?c = "with_id newCourseId ?d"
  have st: "steps ?c = map toStep (course result)"
    by (simp add: with_id_def)
  have "courses (handleGenerateCourse stringify now s tpc dpt (Inr result) (Inr newCourseId)) =
          ?c # courses s"
    using assms by (simp add: handleGenerateCourse_success)
  moreover have "map funFact (steps ?c) =
         map (\<lambda>e. if o_funFact e = Some [] then None else o_funFact e) (course result)"
    unfolding st by (simp add: toStep_fields)
  moreover have "map externalLinks (steps ?c) = map o_externalLinks (course result)"
    unfolding st by (simp add: toStep_fields)
  moreover have "map quiz (steps ?c) = map o_quiz (course result)"
    unfolding st by (simp add: toStep_fields)
  ultimately show ?thesis
    by blast
qed

theorem optional_fields_copied_when_truthy_witness:
  "mounted (ex_state [] None) \<and> user (ex_state [] None) = Some ''u1''
   \<and> map funFact (steps (hd (courses
        (ex_generated [ex_outline 1 (Some ''Fun'') (Some ''Quiz''), ex_outline 2 None None])))) =
       [Some ''Fun'', None]
   \<and> map externalLinks (steps (hd (courses
        (ex_generated [ex_outline 1 (Some ''Fun'') (Some ''Quiz''), ex_outline 2 None None])))) =
       [Some [], Some []]
   \<and> map quiz (steps (hd (courses
        (ex_generated [ex_outline 1 (Some ''Fun'') (Some ''Quiz''), ex_outline 2 None None])))) =
       [Some ''Quiz'', None]"
proof -
  let ?r = "\<lparr>course = [ex_outline 1 (Some ''Fun'') (Some ''Quiz''), ex_outline 2 None None]\<rparr>"
  have h1: "mounted (ex_state [] None)" and h2: "user (ex_state [] None) = Some ''u1''"
    by (simp_all add: ex_defs)
  have h3: "course ?r \<noteq> []"
    by simp
  from optional_fields_copied_when_truthy [OF h1 h2 h3, of ex_stringify
      "''2024-01-01T00:00:00.000Z''" "''X''" D15 "''c1''"]
  obtain c where c: "courses (ex_generated (course ?r)) = c # courses (ex_state [] None)"
    and ff: "map funFact (steps c) =
         map (\<lambda>e. if o_funFact e = Some [] then None else o_funFact e) (course ?r)"
    and el: "map externalLinks (steps c) = map o_externalLinks (course ?r)"
    and qz: "map quiz (steps c) = map o_quiz (course ?r)"
    unfolding ex_generated_def by auto
  have hd: "hd (courses
      (ex_generated [ex_outline 1 (Some ''Fun'') (Some ''Quiz''), ex_outline 2 None None])) = c"
    using c by simp
  from h1 h2 ff el qz show ?thesis
    unfolding hd by (simp add: ex_defs)
qed

text \<open>
  C6 as stated fails: a fun fact that is present and empty is not copied, though the
  generation succeeds.
\<close>

theorem empty_fun_fact_is_dropped:
  "generationState (ex_generated [ex_outline 1 (Some '''') None]) = Done
   \<and> map o_funFact [ex_outline 1 (Some '''') None] = [Some '''']
   \<and> map funFact (steps (hd (courses (ex_generated [ex_outline 1 (Some '''') None])))) = [None]"
  by (simp add: ex_generated_def handleGenerateCourse_def generate_try_def effect_defs Let_def
      with_id_def toStep_fields ex_defs)

subsection \<open>Step question answering\<close>

text \<open>
  C7. The promise of \<^verbatim>\<open>handleAskQuestion\<close> is fulfilled with an answer on every
  input, never rejected. On a page that is not mounted the answer is the placeholder
  and the state, trace included, is untouched: no call is made. On a mounted page,
  when the action fails the answer is the fallback, the error is logged and the toast
  "Error Getting Answer" is shown; when it succeeds the answer is the action's. The
  action itself rejects whenever the flow does, which the handler absorbs the same way.
\<close>

theorem ask_question_never_throws:
  "(\<exists>out. fst (handleAskQuestion s crs st question action) = Inr out)
   \<and> (\<not> mounted s \<longrightarrow>
        handleAskQuestion s crs st question action = (Inr \<lparr>answer = msg_wait\<rparr>, s))
   \<and> (mounted s \<longrightarrow>
        handleAskQuestion s crs st question (Inl err) =
          (Inr \<lparr>answer = msg_sorry\<rparr>,
           s\<lparr>trace := trace s @
              [Call_askQuestionAction
                 \<lparr>a_topic = topic crs, a_stepTitle = title st,
                  a_stepContent = (case content st of None \<Rightarrow> [] | Some c \<Rightarrow> c),
                  a_question = question\<rparr>,
               ConsoleError None err,
               Toast ''destructive'' ''Error Getting Answer''
                 ''Could not get an answer for this question. Please try again.'']\<rparr>))
   \<and> (mounted s \<longrightarrow> fst (handleAskQuestion s crs st question (Inr out')) = Inr out')
   \<and> (\<exists>e. snd (askQuestionAction (Inl err)) = Inl e)
   \<and> (mounted s \<longrightarrow>
        fst (handleAskQuestion s crs st question (snd (askQuestionAction (Inl err)))) =
          Inr \<lparr>answer = msg_sorry\<rparr>)"
proof -
  have 1: "\<exists>out. fst (handleAskQuestion s crs st question action) = Inr out"
    by (cases action) (simp_all add: handleAskQuestion_def Let_def)
  have 2: "\<not> mounted s \<longrightarrow>
        handleAskQuestion s crs st question action = (Inr \<lparr>answer = msg_wait\<rparr>, s)"
    by (simp add: handleAskQuestion_def)
  have 3: "mounted s \<longrightarrow>
        handleAskQuestion s crs st question (Inl err) =
          (Inr \<lparr>answer = msg_sorry\<rparr>,
           s\<lparr>trace := trace s @
              [Call_askQuestionAction
                 \<lparr>a_topic = topic crs, a_stepTitle = title st,
                  a_stepContent = (case content st of None \<Rightarrow> [] | Some c \<Rightarrow> c),
                  a_question = question\<rparr>,
               ConsoleError None err,
               Toast ''destructive'' ''Error Getting Answer''
                 ''Could not get an answer for this question. Please try again.'']\<rparr>)"
    by (simp add: handleAskQuestion_def effect_defs Let_def)
  have 4: "mounted s \<longrightarrow> fst (handleAskQuestion s crs st question (Inr out')) = Inr out'"
    by (simp add: handleAskQuestion_def Let_def)
  have 5: "\<exists>e. snd (askQuestionAction (Inl err)) = Inl e"
    by (cases err) (simp_all add: askQuestionAction_def)
  then obtain e where e: "snd (askQuestionAction (Inl err)) = Inl e" ..
  have 6: "mounted s \<longrightarrow>
        fst (handleAskQuestion s crs st question (snd (askQuestionAction (Inl err)))) =
          Inr \<lparr>answer = msg_sorry\<rparr>"
    unfolding e by (simp add: handleAskQuestion_def Let_def)
  from 1 2 3 4 5 6 show ?thesis
    by blast
qed

theorem ask_question_never_throws_witness:
  "\<not> mounted ((ex_state [] None)\<lparr>mounted := False\<rparr>)
   \<and> handleAskQuestion ((ex_state [] None)\<lparr>mounted := False\<rparr>) (ex_course ''A'' [])
        (ex_step 1 False) ''Why?'' (Inl NonError) =
       (Inr \<lparr>answer = ''Please wait for the page to fully load.''\<rparr>,
        (ex_state [] None)\<lparr>mounted := False\<rparr>)
   \<and> mounted (ex_state [] None)
   \<and> fst (handleAskQuestion (ex_state [] None) (ex_course ''A'' []) (ex_step 1 False) ''Why?''
        (Inl NonError)) =
       Inr \<lparr>answer = ''Sorry, I couldn't process your question. Please try again.''\<rparr>
   \<and> toasts_of (trace (snd (handleAskQuestion (ex_state [] None) (ex_course ''A'' [])
        (ex_step 1 False) ''Why?'' (Inl NonError)))) =
       [(''destructive'', ''Error Getting Answer'',
         ''Could not get an answer for this question. Please try again.'')]
   \<and> fst (handleAskQuestion (ex_state [] None) (ex_course ''A'' []) (ex_step 1 False) ''Why?''
        (Inr \<lparr>answer = ''Because.''\<rparr>)) = Inr \<lparr>answer = ''Because.''\<rparr>"
proof -
  let ?off = "(ex_state [] None)\<lparr>mounted := False\<rparr>"
  let ?on = "ex_state [] None"
  have h1: "\<not> mounted ?off" and h2: "mounted ?on"
    by (simp_all add: ex_defs)
  note off = ask_question_never_throws [of ?off "ex_course ''A'' []" "ex_step 1 False"
      "''Why?''" "Inl NonError" NonError "\<lparr>answer = ''Because.''\<rparr>"]
  note on = ask_question_never_throws [of ?on "ex_course ''A'' []" "ex_step 1 False"
      "''Why?''" "Inl NonError" NonError "\<lparr>answer = ''Because.''\<rparr>"]
  have a: "handleAskQuestion ?off (ex_course ''A'' []) (ex_step 1 False) ''Why?''
      (Inl NonError) = (Inr \<lparr>answer = msg_wait\<rparr>, ?off)"
    using off h1 by blast
  have b: "handleAskQuestion ?on (ex_course ''A'' []) (ex_step 1 False) ''Why?'' (Inl NonError) =
          (Inr \<lparr>answer = msg_sorry\<rparr>,
           ?on\<lparr>trace := trace ?on @
              [Call_askQuestionAction
                 \<lparr>a_topic = topic (ex_course ''A'' []), a_stepTitle = title (ex_step 1 False),
                  a_stepContent =
                    (case content (ex_step 1 False) of None \<Rightarrow> [] | Some c \<Rightarrow> c),
                  a_question = ''Why?''\<rparr>,
               ConsoleError None NonError,
               Toast ''destructive'' ''Error Getting Answer''
                 ''Could not get an answer for this question. Please try again.'']\<rparr>)"
    using on h2 by blast
  have c: "fst (handleAskQuestion ?on (ex_course ''A'' []) (ex_step 1 False) ''Why?''
        (Inr \<lparr>answer = ''Because.''\<rparr>)) = Inr \<lparr>answer = ''Because.''\<rparr>"
    using on h2 by blast
  have tr: "toasts_of (trace ?on) = []"
    by (simp add: ex_defs)
  from h1 h2 a c show ?thesis
    unfolding b by (simp add: msg_wait_def msg_sorry_def toasts_of_append tr)
qed

end
